theory Spec2Isabelle
  imports Complex_Main
begin

section \<open>Values, errors and the predictor object\<close>

text \<open>
  A numeric cell of a pandas frame or of a persisted statistics dictionary: a number, or
  the missing value NaN. Python integers and floats are both read as real numbers; a
  float literal of the source denotes the decimal it is written as.
\<close>

datatype cell = Num real | NaN

text \<open>The exceptions the prediction path can raise.\<close>

datatype error = ValueError | KeyError | IndexError

text \<open>
  One row of \<open>origin_stats.to_dict('index')\<close>: statistic name to value; a table maps an
  airport name to its row.
\<close>

type_synonym stats_row = "string \<rightharpoonup> cell"
type_synonym stats_table = "string \<rightharpoonup> stats_row"

text \<open>
  The fitted scikit-learn classifier is opaque. \<open>predict_proba\<close> is \<open>None\<close> when the object
  has no such attribute; otherwise it gives, for the one-row input, the row of class
  scores. \<open>predict\<close> gives the predicted label of the one-row input.
\<close>

record classifier =
  predict_proba :: "(cell list \<Rightarrow> real list) option"
  predict :: "cell list \<Rightarrow> real"

record metadata =
  model_type :: string
  roc_auc_score :: real
  training_samples :: nat
  test_samples :: nat
  feature_count :: nat
  delay_rate :: real
  trained_on :: string
  features :: "string list"

text \<open>
  \<open>FlightDelayPredictor\<close>. \<open>model\<close> is \<open>None\<close> until a model is trained or loaded;
  \<open>label_encoders\<close> maps a categorical feature to the sorted \<open>classes_\<close> of its encoder;
  \<open>scaler\<close> is the fitted transform on one row; \<open>airport_stats\<close> is the dictionary with the
  keys \<open>'origin'\<close> and \<open>'dest'\<close>; \<open>model_metadata\<close> is \<open>None\<close> for the empty dictionary.
\<close>

record predictor =
  model :: "classifier option"
  label_encoders :: "string \<rightharpoonup> string list"
  scaler :: "cell list \<Rightarrow> cell list"
  feature_columns :: "string list"
  airport_stats :: "string \<rightharpoonup> stats_table"
  model_metadata :: "metadata option"

section \<open>Query-time feature synthesis (\<open>predict_delay_probability\<close>)\<close>

text \<open>The literal \<open>sample_data\<close> dictionary of lines 283-291.\<close>

definition base_sample :: "int \<Rightarrow> int option \<Rightarrow> (string \<times> cell) list" where
  "base_sample day_of_week departure_time =
    [(''DayOfWeek'', Num (of_int day_of_week)),
     (''departure_hour'',
        Num (of_int (case departure_time of None \<Rightarrow> 12 | Some t \<Rightarrow> t div 100))),
     (''arrival_hour'',
        Num (of_int (case departure_time of None \<Rightarrow> 15 | Some t \<Rightarrow> t div 100 + 3))),
     (''CRSDepTime'',
        Num (of_int (case departure_time of None \<Rightarrow> 1200 | Some t \<Rightarrow> t))),
     (''CRSArrTime'',
        Num (of_int (case departure_time of None \<Rightarrow> 1500 | Some t \<Rightarrow> t + 300))),
     (''is_weekend'', Num (if day_of_week \<in> {6, 7} then 1 else 0)),
     (''state_distance'', Num 2)]"

definition avg_origin_stats :: "(string \<times> cell) list" where
  "avg_origin_stats =
    [(''origin_ArrDel15_count'', Num 500),
     (''origin_ArrDel15_mean'', Num 0.22),
     (''origin_ArrDel15_std'', Num 0.41),
     (''origin_DepDelay_mean'', Num 8.5),
     (''origin_DepDelay_std'', Num 25.0)]"

definition avg_dest_stats :: "(string \<times> cell) list" where
  "avg_dest_stats =
    [(''dest_ArrDel15_count'', Num 500),
     (''dest_ArrDel15_mean'', Num 0.22),
     (''dest_ArrDel15_std'', Num 0.41),
     (''dest_DepDelay_mean'', Num 8.5),
     (''dest_DepDelay_std'', Num 25.0)]"

definition categorical_defaults :: "(string \<times> cell) list" where
  "categorical_defaults =
    [(''Carrier_encoded'', Num 0),
     (''departure_period_encoded'', Num 1),
     (''season_encoded'', Num 1)]"

text \<open>
  Lines 293-327: the stored row of a known airport is copied key by key, an unknown
  airport gets the average record; \<open>++\<close> is \<open>dict.update\<close> (the right operand wins).
\<close>

definition sample_data ::
  "stats_table \<Rightarrow> stats_table \<Rightarrow> string \<Rightarrow> string \<Rightarrow> int \<Rightarrow> int option \<Rightarrow> (string \<rightharpoonup> cell)" where
  "sample_data origin_tab dest_tab origin_airport dest_airport day_of_week departure_time =
     map_of (base_sample day_of_week departure_time)
       ++ (case origin_tab origin_airport of
             Some st \<Rightarrow> st
           | None \<Rightarrow> map_of avg_origin_stats)
       ++ (case dest_tab dest_airport of
             Some st \<Rightarrow> st
           | None \<Rightarrow> map_of avg_dest_stats)
       ++ map_of categorical_defaults"

text \<open>\<open>Series.fillna(v)\<close> on one cell.\<close>

definition fillna :: "real \<Rightarrow> cell \<Rightarrow> cell" where
  "fillna v c = (case c of NaN \<Rightarrow> Num v | Num x \<Rightarrow> Num x)"

text \<open>
  Lines 330-338: every feature column absent from the one-row frame is added with the
  value 0, the frame is restricted to \<open>feature_columns\<close> in that order, and NaN is
  replaced by 0. The result is the row \<open>X_sample\<close> with its column names.
\<close>

definition X_sample :: "string list \<Rightarrow> (string \<rightharpoonup> cell) \<Rightarrow> (string \<times> cell) list" where
  "X_sample cols sd =
     map (\<lambda>col. (col, fillna 0 (case sd col of None \<Rightarrow> Num 0 | Some v \<Rightarrow> v))) cols"

text \<open>\<open>[:, 1][0]\<close>: the score of the second (positive) class.\<close>

definition positive_class :: "real list \<Rightarrow> error + real" where
  "positive_class scores = (if length scores < 2 then Inl IndexError else Inr (scores ! 1))"

text \<open>\<open>self.model_metadata.get('model_type') == 'RandomForest'\<close>.\<close>

definition is_random_forest :: "predictor \<Rightarrow> bool" where
  "is_random_forest self =
     (case model_metadata self of None \<Rightarrow> False | Some md \<Rightarrow> model_type md = ''RandomForest'')"

text \<open>The feature row built for a query, as \<open>predict_delay_probability\<close> builds it.\<close>

definition synthesize ::
  "predictor \<Rightarrow> stats_table \<Rightarrow> stats_table \<Rightarrow> string \<Rightarrow> string \<Rightarrow> int \<Rightarrow> int option
     \<Rightarrow> (string \<times> cell) list" where
  "synthesize self origin_tab dest_tab origin_airport dest_airport day_of_week departure_time =
     X_sample (feature_columns self)
       (sample_data origin_tab dest_tab origin_airport dest_airport day_of_week departure_time)"

definition predict_delay_probability ::
  "predictor \<Rightarrow> string \<Rightarrow> string \<Rightarrow> int \<Rightarrow> int option \<Rightarrow> error + real" where
  "predict_delay_probability self origin_airport dest_airport day_of_week departure_time =
    (case model self of
       None \<Rightarrow> Inl ValueError
     | Some m \<Rightarrow>
        (case airport_stats self ''origin'' of
           None \<Rightarrow> Inl KeyError
         | Some origin_tab \<Rightarrow>
            (case airport_stats self ''dest'' of
               None \<Rightarrow> Inl KeyError
             | Some dest_tab \<Rightarrow>
                (let X = map snd (synthesize self origin_tab dest_tab origin_airport
                                    dest_airport day_of_week departure_time);
                     X_scaled = scaler self X
                 in (case predict_proba m of
                       Some proba \<Rightarrow>
                         (if is_random_forest self then positive_class (proba X)
                          else positive_class (proba X_scaled))
                     | None \<Rightarrow>
                         (if is_random_forest self then Inr (predict m X)
                          else Inr (predict m X_scaled)))))))"

section \<open>Statistic names written by the aggregator\<close>

text \<open>
  The column names \<open>create_airport_features\<close> gives the two tables: the aggregated column
  and the aggregate joined by an underscore, under the prefix of the role.
\<close>

definition stat_names :: "string \<Rightarrow> string list" where
  "stat_names prefix =
     map (\<lambda>n. prefix @ n)
       [''ArrDel15_count'', ''ArrDel15_mean'', ''ArrDel15_std'',
        ''DepDelay_mean'', ''DepDelay_std'',
        ''ArrDelay_mean'', ''ArrDelay_std'']"

text \<open>A looked-up row, if there is one, has only keys among the given names.\<close>

definition row_keys_in :: "string list \<Rightarrow> stats_row option \<Rightarrow> bool" where
  "row_keys_in names r = (case r of None \<Rightarrow> True | Some st \<Rightarrow> dom st \<subseteq> set names)"

section \<open>The serving layer (\<open>ml_api.py\<close>)\<close>

text \<open>
  The JSON value of \<open>dayOfWeek\<close>: an integer, or a value \<open>isinstance(_, int)\<close> rejects.
\<close>

datatype json_number = JInt int | JNotInt

record request =
  req_origin :: "string option"
  req_destination :: "string option"
  req_dayOfWeek :: "json_number option"
  req_departureTime :: "int option"

record prediction =
  pr_origin :: string
  pr_destination :: string
  pr_dayOfWeek :: string
  delayProbability :: real
  probabilityDecimal :: real
  confidence :: string
  confidenceScore :: real
  message :: string
  originKnown :: bool
  destinationKnown :: bool

datatype response = Error400 string | Error500 string | Success prediction

text \<open>
  Python's \<open>round(x, n)\<close> and \<open>DataFrame.round(n)\<close>, read on real numbers: to the nearest
  multiple of 10 to the power \<open>-n\<close>, ties to even. Python rounds the binary float, whose value can
  differ from the decimal it is written as (\<open>round(2.675, 2)\<close> is 2.67 there), so the two
  agree where the float is exactly the decimal; the only rounding evaluated below is of
  such a value.
\<close>

definition round_half_even :: "real \<Rightarrow> int" where
  "round_half_even x =
     (let f = \<lfloor>x\<rfloor>; d = x - of_int f
      in if d < 1 / 2 then f else if 1 / 2 < d then f + 1 else if even f then f else f + 1)"

definition py_round :: "real \<Rightarrow> nat \<Rightarrow> real" where
  "py_round x n = of_int (round_half_even (x * 10 ^ n)) / 10 ^ n"

definition day_names :: "int \<Rightarrow> string" where
  "day_names d =
     (if d = 1 then ''Monday'' else if d = 2 then ''Tuesday'' else if d = 3 then ''Wednesday''
      else if d = 4 then ''Thursday'' else if d = 5 then ''Friday''
      else if d = 6 then ''Saturday'' else ''Sunday'')"

text \<open>\<open>name in predictor.airport_stats.get(role, {})\<close>.\<close>

definition known_in :: "predictor \<Rightarrow> string \<Rightarrow> string \<Rightarrow> bool" where
  "known_in P role name =
     (case airport_stats P role of None \<Rightarrow> False | Some tab \<Rightarrow> tab name \<noteq> None)"

definition confidence_of :: "bool \<Rightarrow> bool \<Rightarrow> string \<times> real" where
  "confidence_of origin_known dest_known =
     (if origin_known \<and> dest_known then (''High'', 0.9)
      else if origin_known \<or> dest_known then (''Medium'', 0.7)
      else (''Low'', 0.5))"

definition risk_message :: "real \<Rightarrow> string" where
  "risk_message probability =
     (if probability > 0.3 then ''High likelihood of delay - consider alternative flights''
      else if probability > 0.2 then ''Moderate delay risk''
      else ''Low delay risk'')"

text \<open>
  The handler of \<open>POST /predict\<close>. The first argument is the global \<open>predictor\<close>. Any
  exception of the prediction is caught and answered with status 500.
\<close>

definition predict_delay :: "predictor option \<Rightarrow> request \<Rightarrow> response" where
  "predict_delay predictor_global data =
    (case predictor_global of
       None \<Rightarrow> Error500 ''Model not loaded''
     | Some P \<Rightarrow>
        (case req_origin data of
           None \<Rightarrow> Error400 ''Missing required parameter: origin''
         | Some origin \<Rightarrow>
            (case req_destination data of
               None \<Rightarrow> Error400 ''Missing required parameter: destination''
             | Some destination \<Rightarrow>
                (case req_dayOfWeek data of
                   None \<Rightarrow> Error400 ''Missing required parameter: dayOfWeek''
                 | Some JNotInt \<Rightarrow>
                     Error400 ''dayOfWeek must be an integer between 1 (Monday) and 7 (Sunday)''
                 | Some (JInt day_of_week) \<Rightarrow>
                     (if day_of_week < 1 \<or> day_of_week > 7
                      then Error400
                             ''dayOfWeek must be an integer between 1 (Monday) and 7 (Sunday)''
                      else
                        (case predict_delay_probability P origin destination day_of_week
                                (req_departureTime data) of
                           Inl e \<Rightarrow> Error500 ''Prediction failed''
                         | Inr probability \<Rightarrow>
                            (let origin_known = known_in P ''origin'' origin;
                                 dest_known = known_in P ''dest'' destination
                             in Success
                                  \<lparr>pr_origin = origin,
                                   pr_destination = destination,
                                   pr_dayOfWeek = day_names day_of_week,
                                   delayProbability = py_round (probability * 100) 2,
                                   probabilityDecimal = py_round probability 4,
                                   confidence = fst (confidence_of origin_known dest_known),
                                   confidenceScore = snd (confidence_of origin_known dest_known),
                                   message = risk_message probability,
                                   originKnown = origin_known,
                                   destinationKnown = dest_known\<rparr>)))))))"

text \<open>
  The handler of \<open>POST /batch-predict\<close>, one route at a time: a missing key or a failing
  prediction gives a failure entry; nothing else is checked.
\<close>

record route =
  rt_origin :: "string option"
  rt_destination :: "string option"
  rt_dayOfWeek :: "int option"
  rt_departureTime :: "int option"

datatype batch_entry = BatchSuccess nat real | BatchFailure nat

definition batch_route :: "predictor \<Rightarrow> nat \<Rightarrow> route \<Rightarrow> batch_entry" where
  "batch_route P i r =
    (case rt_origin r of
       None \<Rightarrow> BatchFailure i
     | Some origin \<Rightarrow>
        (case rt_destination r of
           None \<Rightarrow> BatchFailure i
         | Some destination \<Rightarrow>
            (case rt_dayOfWeek r of
               None \<Rightarrow> BatchFailure i
             | Some day_of_week \<Rightarrow>
                (case predict_delay_probability P origin destination day_of_week
                        (rt_departureTime r) of
                   Inl e \<Rightarrow> BatchFailure i
                 | Inr probability \<Rightarrow> BatchSuccess i (py_round (probability * 100) 2)))))"

definition batch_predict :: "predictor option \<Rightarrow> route list \<Rightarrow> string + batch_entry list" where
  "batch_predict predictor_global routes =
    (case predictor_global of
       None \<Rightarrow> Inl ''Model not loaded''
     | Some P \<Rightarrow> Inr (map (\<lambda>(i, r). batch_route P i r) (enumerate 0 routes)))"

section \<open>Model families\<close>

text \<open>
  The two candidates of \<open>train_model\<close>, \<open>RandomForestClassifier\<close> and
  \<open>GradientBoostingClassifier\<close>, are both ensembles of decision trees (each is given a
  \<open>max_depth\<close>); \<open>model_type\<close> holds the name of the one selected.
\<close>

definition tree_based :: "string \<Rightarrow> bool" where
  "tree_based name = (name = ''RandomForest'' \<or> name = ''GradientBoosting'')"

text \<open>
  Both candidates are fitted on the binary target \<open>ArrDel15\<close> and offer \<open>predict_proba\<close>,
  which scikit-learn documents to give one probability for each class: for the one-row
  input, two scores, each in [0,1]. The library is not part of the repository, so this is
  a property a classifier is assumed to have, never one the code establishes.
\<close>

definition fitted_binary_classifier :: "classifier \<Rightarrow> bool" where
  "fitted_binary_classifier m =
     (case predict_proba m of
        None \<Rightarrow> False
      | Some proba \<Rightarrow> \<forall>X. length (proba X) = 2 \<and> (\<forall>s \<in> set (proba X). 0 \<le> s \<and> s \<le> 1))"

section \<open>A worked predictor\<close>

text \<open>
  A small loaded predictor for the concrete instances below: one known origin, one known
  destination, a schema whose last name the synthesis does not produce, a scaler that
  centres every feature at 5, and a classifier whose positive score is 0.75 when the first
  feature is positive and 0.25 otherwise.
\<close>

definition jfk_origin_row :: "(string \<times> cell) list" where
  "jfk_origin_row =
    [(''origin_ArrDel15_count'', Num 812),
     (''origin_ArrDel15_mean'', Num 0.3),
     (''origin_ArrDel15_std'', Num 0.458),
     (''origin_DepDelay_mean'', Num 12.5),
     (''origin_DepDelay_std'', Num 31),
     (''origin_ArrDelay_mean'', Num 9.25),
     (''origin_ArrDelay_std'', Num 33)]"

definition lax_dest_row :: "(string \<times> cell) list" where
  "lax_dest_row =
    [(''dest_ArrDel15_count'', Num 1),
     (''dest_ArrDel15_mean'', Num 1),
     (''dest_ArrDel15_std'', NaN),
     (''dest_DepDelay_mean'', Num 40),
     (''dest_DepDelay_std'', NaN),
     (''dest_ArrDelay_mean'', Num 35),
     (''dest_ArrDelay_std'', NaN)]"

definition demo_origin_table :: stats_table where
  "demo_origin_table = Map.empty(''JFK'' \<mapsto> map_of jfk_origin_row)"

definition demo_dest_table :: stats_table where
  "demo_dest_table = Map.empty(''LAX'' \<mapsto> map_of lax_dest_row)"

definition demo_scores :: "cell list \<Rightarrow> real list" where
  "demo_scores X =
     (case X of
        Num x # _ \<Rightarrow> if 0 < x then [0.25, 0.75] else [0.75, 0.25]
      | _ \<Rightarrow> [0.5, 0.5])"

definition demo_classifier :: classifier where
  "demo_classifier =
     \<lparr>predict_proba = Some demo_scores, predict = (\<lambda>X. if demo_scores X ! 1 > 0.5 then 1 else 0)\<rparr>"

definition demo_scaler :: "cell list \<Rightarrow> cell list" where
  "demo_scaler X = map (\<lambda>c. case c of Num x \<Rightarrow> Num (x - 5) | NaN \<Rightarrow> NaN) X"

definition demo_metadata :: "string \<Rightarrow> metadata" where
  "demo_metadata name =
     \<lparr>model_type = name, roc_auc_score = 0.7, training_samples = 8, test_samples = 2,
      feature_count = 5, delay_rate = 0.2, trained_on = ''2025-01-01T00:00:00'',
      features =
        [''DayOfWeek'', ''arrival_hour'', ''CRSArrTime'', ''dest_ArrDel15_std'', ''route_distance'']\<rparr>"

definition demo_predictor :: "string \<Rightarrow> predictor" where
  "demo_predictor name =
     \<lparr>model = Some demo_classifier,
      label_encoders = Map.empty,
      scaler = demo_scaler,
      feature_columns =
        [''DayOfWeek'', ''arrival_hour'', ''CRSArrTime'', ''dest_ArrDel15_std'', ''route_distance''],
      airport_stats = Map.empty(''origin'' \<mapsto> demo_origin_table, ''dest'' \<mapsto> demo_dest_table),
      model_metadata = Some (demo_metadata name)\<rparr>"

definition demo_request :: "string \<Rightarrow> string \<Rightarrow> int \<Rightarrow> request" where
  "demo_request origin destination day =
     \<lparr>req_origin = Some origin, req_destination = Some destination,
      req_dayOfWeek = Some (JInt day), req_departureTime = None\<rparr>"

definition demo_route :: "string \<Rightarrow> string \<Rightarrow> int \<Rightarrow> route" where
  "demo_route origin destination day =
     \<lparr>rt_origin = Some origin, rt_destination = Some destination,
      rt_dayOfWeek = Some day, rt_departureTime = None\<rparr>"

section \<open>Training-time aggregation and time buckets (\<open>train_model.py\<close>)\<close>

text \<open>
  One row of the flight frame, with the columns the aggregation and the time features
  read. The delay columns are numeric cells, so a missing value is NaN.
\<close>

record flight =
  Carrier :: string
  OriginAirportName :: string
  OriginState :: string
  DestAirportName :: string
  DestState :: string
  CRSDepTime :: int
  CRSArrTime :: int
  DayOfWeek :: int
  Month :: int
  DepDelay :: cell
  ArrDelay :: cell
  ArrDel15 :: cell

text \<open>
  The pandas group aggregates. All of them skip NaN. \<open>count\<close> is the number of values
  present, \<open>mean\<close> is NaN for no value, and \<open>std\<close> is the sample standard deviation (one
  degree of freedom removed), which is NaN for fewer than two values.
\<close>

definition present :: "cell list \<Rightarrow> real list" where
  "present cs = concat (map (\<lambda>c. case c of Num x \<Rightarrow> [x] | NaN \<Rightarrow> []) cs)"








text \<open>
  \<open>pd.cut(x, bins, labels)\<close> with the defaults the source leaves in place (\<open>right=True\<close>,
  \<open>include_lowest=False\<close>): the label of the bin with \<open>lo < x \<le> hi\<close>, and the missing
  value (\<open>None\<close>) for an \<open>x\<close> in no bin.
\<close>

fun pd_cut :: "int list \<Rightarrow> string list \<Rightarrow> int \<Rightarrow> string option" where
  "pd_cut (lo # hi # bins) (l # labels) x =
     (if lo < x \<and> x \<le> hi then Some l else pd_cut (hi # bins) labels x)"
| "pd_cut _ _ _ = None"

text \<open>
  Lines 96-104 of \<open>feature_engineering\<close>: the departure hour and the period \<open>pd.cut\<close>
  assigns to it (before the later fill of missing values with the mode of the column).
\<close>

definition departure_hour :: "flight \<Rightarrow> int" where
  "departure_hour f = CRSDepTime f div 100"

definition departure_period :: "flight \<Rightarrow> string option" where
  "departure_period f =
     pd_cut [0, 6, 12, 18, 24] [''night'', ''morning'', ''afternoon'', ''evening'']
       (departure_hour f)"

text \<open>A flight record for the concrete instances.\<close>

definition demo_flight :: "string \<Rightarrow> string \<Rightarrow> int \<Rightarrow> real \<Rightarrow> flight" where
  "demo_flight origin destination dep delay =
     \<lparr>Carrier = ''DL'', OriginAirportName = origin, OriginState = ''NY'',
      DestAirportName = destination, DestState = ''CA'', CRSDepTime = dep,
      CRSArrTime = dep + 300, DayOfWeek = 3, Month = 7, DepDelay = Num delay,
      ArrDelay = Num delay, ArrDel15 = Num (if 15 \<le> delay then 1 else 0)\<rparr>"

section \<open>Lookups in the synthesized sample\<close>

lemma X_sample_names: "map fst (X_sample cols sd) = cols"
  by (simp add: X_sample_def comp_def)

lemma X_sample_entry:
  assumes "col \<in> set cols"
  shows "(col, fillna 0 (case sd col of None \<Rightarrow> Num 0 | Some v \<Rightarrow> v)) \<in> set (X_sample cols sd)"
  using assms by (auto simp: X_sample_def)

lemma base_sample_keys:
  "fst ` set (base_sample day_of_week departure_time) =
     {''DayOfWeek'', ''departure_hour'', ''arrival_hour'', ''CRSDepTime'',
      ''CRSArrTime'', ''is_weekend'', ''state_distance''}"
  by (simp add: base_sample_def)

lemma base_key_not_stat_name:
  assumes "k \<in> fst ` set (base_sample day_of_week departure_time)"
  shows "k \<notin> set (stat_names ''origin_'')" and "k \<notin> set (stat_names ''dest_'')"
    and "map_of avg_origin_stats k = None" and "map_of avg_dest_stats k = None"
    and "map_of categorical_defaults k = None"
  using assms unfolding base_sample_keys
  by (auto simp: stat_names_def avg_origin_stats_def avg_dest_stats_def categorical_defaults_def)

lemma row_keys_in_None:
  assumes "row_keys_in names r" and "k \<notin> set names"
  shows "\<forall>st. r = Some st \<longrightarrow> st k = None"
  using assms by (auto simp: row_keys_in_def split: option.splits)

lemma sample_data_base_key:
  assumes "row_keys_in (stat_names ''origin_'') (origin_tab origin_airport)"
    and "row_keys_in (stat_names ''dest_'') (dest_tab dest_airport)"
    and "k \<in> fst ` set (base_sample day_of_week departure_time)"
  shows "sample_data origin_tab dest_tab origin_airport dest_airport day_of_week departure_time k
           = map_of (base_sample day_of_week departure_time) k"
proof -
  note nk = base_key_not_stat_name [OF assms(3)]
  have "\<forall>st. origin_tab origin_airport = Some st \<longrightarrow> st k = None"
    by (rule row_keys_in_None) (rule assms(1) nk(1))+
  then have o: "(case origin_tab origin_airport of Some st \<Rightarrow> st | None \<Rightarrow> map_of avg_origin_stats) k
             = None"
    using nk(3) by (simp split: option.splits)
  have "\<forall>st. dest_tab dest_airport = Some st \<longrightarrow> st k = None"
    by (rule row_keys_in_None) (rule assms(2) nk(2))+
  then have d: "(case dest_tab dest_airport of Some st \<Rightarrow> st | None \<Rightarrow> map_of avg_dest_stats) k
             = None"
    using nk(4) by (simp split: option.splits)
  show ?thesis
    unfolding sample_data_def by (simp add: map_add_def nk(5) o d)
qed

section \<open>Arrival fields of a query with a departure time\<close>

text \<open>
  C10. For a query with departure time \<open>t\<close>, and stored rows that hold only the
  aggregator's statistic names, the synthesized sample has \<open>arrival_hour = t // 100 + 3\<close>
  and \<open>CRSArrTime = t + 300\<close>, and these are the values of the feature row wherever the
  schema lists the two columns; so from \<open>t // 100 \<ge> 21\<close> on, \<open>arrival_hour\<close> exceeds 23 and
  \<open>CRSArrTime\<close> exceeds 2359: nothing wraps around midnight.
\<close>

theorem arrival_fields_not_wrapped:
  assumes "row_keys_in (stat_names ''origin_'') (origin_tab origin_airport)"
    and "row_keys_in (stat_names ''dest_'') (dest_tab dest_airport)"
  shows
    "sample_data origin_tab dest_tab origin_airport dest_airport day_of_week (Some t) ''arrival_hour''
        = Some (Num (of_int (t div 100 + 3)))
     \<and> sample_data origin_tab dest_tab origin_airport dest_airport day_of_week (Some t) ''CRSArrTime''
        = Some (Num (of_int (t + 300)))
     \<and> (''arrival_hour'' \<in> set (feature_columns self) \<longrightarrow>
          (''arrival_hour'', Num (of_int (t div 100 + 3)))
            \<in> set (synthesize self origin_tab dest_tab origin_airport dest_airport day_of_week (Some t)))
     \<and> (''CRSArrTime'' \<in> set (feature_columns self) \<longrightarrow>
          (''CRSArrTime'', Num (of_int (t + 300)))
            \<in> set (synthesize self origin_tab dest_tab origin_airport dest_airport day_of_week (Some t)))
     \<and> (21 \<le> t div 100 \<longrightarrow> 23 < t div 100 + 3 \<and> 2359 < t + 300)"
proof -
  let ?sd = "sample_data origin_tab dest_tab origin_airport dest_airport day_of_week (Some t)"
  have keys: "''arrival_hour'' \<in> fst ` set (base_sample day_of_week (Some t))"
    "''CRSArrTime'' \<in> fst ` set (base_sample day_of_week (Some t))"
    by (simp_all add: base_sample_def)
  have ah: "?sd ''arrival_hour'' = Some (Num (of_int (t div 100 + 3)))"
  proof -
    have "?sd ''arrival_hour'' = map_of (base_sample day_of_week (Some t)) ''arrival_hour''"
      by (rule sample_data_base_key) (rule assms keys)+
    then show ?thesis by (simp add: base_sample_def)
  qed
  have ca: "?sd ''CRSArrTime'' = Some (Num (of_int (t + 300)))"
  proof -
    have "?sd ''CRSArrTime'' = map_of (base_sample day_of_week (Some t)) ''CRSArrTime''"
      by (rule sample_data_base_key) (rule assms keys)+
    then show ?thesis by (simp add: base_sample_def)
  qed
  have f1: "''arrival_hour'' \<in> set (feature_columns self) \<longrightarrow>
          (''arrival_hour'', Num (of_int (t div 100 + 3)))
            \<in> set (synthesize self origin_tab dest_tab origin_airport dest_airport day_of_week (Some t))"
    using X_sample_entry [of "''arrival_hour''" "feature_columns self" ?sd] ah
    by (simp add: synthesize_def fillna_def)
  have f2: "''CRSArrTime'' \<in> set (feature_columns self) \<longrightarrow>
          (''CRSArrTime'', Num (of_int (t + 300)))
            \<in> set (synthesize self origin_tab dest_tab origin_airport dest_airport day_of_week (Some t))"
    using X_sample_entry [of "''CRSArrTime''" "feature_columns self" ?sd] ca
    by (simp add: synthesize_def fillna_def)
  have w: "21 \<le> t div 100 \<longrightarrow> 23 < t div 100 + 3 \<and> 2359 < t + 300"
    by linarith
  show ?thesis
    by (rule conjI [OF ah conjI [OF ca conjI [OF f1 conjI [OF f2 w]]]])
qed

lemma demo_rows_keys:
  "row_keys_in (stat_names ''origin_'') (demo_origin_table ''JFK'')"
  "row_keys_in (stat_names ''dest_'') (demo_dest_table ''LAX'')"
  "demo_origin_table ''SFO'' = None"
  "demo_dest_table ''SFO'' = None"
  "row_keys_in (stat_names ''origin_'') (demo_origin_table ''SFO'')"
  "row_keys_in (stat_names ''dest_'') (demo_dest_table ''SFO'')"
  by (simp_all add: row_keys_in_def demo_origin_table_def demo_dest_table_def jfk_origin_row_def
      lax_dest_row_def stat_names_def dom_map_of_conv_image_fst)

theorem arrival_fields_not_wrapped_witness:
  "row_keys_in (stat_names ''origin_'') (demo_origin_table ''JFK'')
   \<and> row_keys_in (stat_names ''dest_'') (demo_dest_table ''SFO'')
   \<and> sample_data demo_origin_table demo_dest_table ''JFK'' ''SFO'' 3 (Some 2130) ''arrival_hour''
        = Some (Num 24)
   \<and> sample_data demo_origin_table demo_dest_table ''JFK'' ''SFO'' 3 (Some 2130) ''CRSArrTime''
        = Some (Num 2430)
   \<and> (''arrival_hour'', Num 24)
        \<in> set (synthesize (demo_predictor ''RandomForest'') demo_origin_table demo_dest_table
                 ''JFK'' ''SFO'' 3 (Some 2130))
   \<and> (''CRSArrTime'', Num 2430)
        \<in> set (synthesize (demo_predictor ''RandomForest'') demo_origin_table demo_dest_table
                 ''JFK'' ''SFO'' 3 (Some 2130))"
proof -
  note T = arrival_fields_not_wrapped
    [where origin_tab = demo_origin_table and origin_airport = "''JFK''"
       and dest_tab = demo_dest_table and dest_airport = "''SFO''"
       and day_of_week = 3 and t = 2130 and self = "demo_predictor ''RandomForest''",
     OF demo_rows_keys(1) demo_rows_keys(6)]
  show ?thesis
    using T demo_rows_keys(1) demo_rows_keys(6) by (simp add: demo_predictor_def)
qed

lemma fillna_not_NaN: "fillna v c \<noteq> NaN"
  by (simp add: fillna_def split: cell.splits)

section \<open>The synthesized row follows the persisted schema\<close>

text \<open>
  C1. For every query, the row synthesized by \<open>predict_delay_probability\<close> carries exactly
  the names of \<open>feature_columns\<close>, in that order; a schema name the synthesis did not produce
  has the value 0, a produced number is passed on unchanged, and no entry is missing (NaN).
\<close>

theorem synthesized_schema:
  "map fst (synthesize self origin_tab dest_tab origin_airport dest_airport day_of_week departure_time)
     = feature_columns self
   \<and> (\<forall>c \<in> set (feature_columns self).
        sample_data origin_tab dest_tab origin_airport dest_airport day_of_week departure_time c = None
        \<longrightarrow> (c, Num 0) \<in> set (synthesize self origin_tab dest_tab origin_airport dest_airport
                                   day_of_week departure_time))
   \<and> (\<forall>c \<in> set (feature_columns self). \<forall>x.
        sample_data origin_tab dest_tab origin_airport dest_airport day_of_week departure_time c
          = Some (Num x)
        \<longrightarrow> (c, Num x) \<in> set (synthesize self origin_tab dest_tab origin_airport dest_airport
                                   day_of_week departure_time))
   \<and> (\<forall>(c, v) \<in> set (synthesize self origin_tab dest_tab origin_airport dest_airport
                          day_of_week departure_time). v \<noteq> NaN)"
proof -
  let ?sd = "sample_data origin_tab dest_tab origin_airport dest_airport day_of_week departure_time"
  let ?X = "synthesize self origin_tab dest_tab origin_airport dest_airport day_of_week departure_time"
  have names: "map fst ?X = feature_columns self"
    by (simp add: synthesize_def X_sample_names)
  have absent: "\<forall>c \<in> set (feature_columns self). ?sd c = None \<longrightarrow> (c, Num 0) \<in> set ?X"
  proof (intro ballI impI)
    fix c assume "c \<in> set (feature_columns self)" and "?sd c = None"
    then show "(c, Num 0) \<in> set ?X"
      using X_sample_entry [of c "feature_columns self" ?sd]
      by (simp add: synthesize_def fillna_def)
  qed
  have present: "\<forall>c \<in> set (feature_columns self). \<forall>x. ?sd c = Some (Num x) \<longrightarrow> (c, Num x) \<in> set ?X"
  proof (intro ballI allI impI)
    fix c x assume "c \<in> set (feature_columns self)" and "?sd c = Some (Num x)"
    then show "(c, Num x) \<in> set ?X"
      using X_sample_entry [of c "feature_columns self" ?sd]
      by (simp add: synthesize_def fillna_def)
  qed
  have filled: "\<forall>(c, v) \<in> set ?X. v \<noteq> NaN"
    by (auto simp: synthesize_def X_sample_def fillna_not_NaN)
  show ?thesis
    by (rule conjI [OF names conjI [OF absent conjI [OF present filled]]])
qed

theorem synthesized_schema_witness:
  "map fst (synthesize (demo_predictor ''RandomForest'') demo_origin_table demo_dest_table
              ''JFK'' ''LAX'' 3 None)
     = [''DayOfWeek'', ''arrival_hour'', ''CRSArrTime'', ''dest_ArrDel15_std'', ''route_distance'']
   \<and> sample_data demo_origin_table demo_dest_table ''JFK'' ''LAX'' 3 None ''route_distance'' = None
   \<and> (''route_distance'', Num 0)
        \<in> set (synthesize (demo_predictor ''RandomForest'') demo_origin_table demo_dest_table
                 ''JFK'' ''LAX'' 3 None)
   \<and> sample_data demo_origin_table demo_dest_table ''JFK'' ''LAX'' 3 None ''DayOfWeek''
        = Some (Num 3)
   \<and> (''DayOfWeek'', Num 3)
        \<in> set (synthesize (demo_predictor ''RandomForest'') demo_origin_table demo_dest_table
                 ''JFK'' ''LAX'' 3 None)"
proof -
  note T = synthesized_schema
    [where self = "demo_predictor ''RandomForest''" and origin_tab = demo_origin_table
       and dest_tab = demo_dest_table and origin_airport = "''JFK''" and dest_airport = "''LAX''"
       and day_of_week = 3 and departure_time = None]
  have absent: "sample_data demo_origin_table demo_dest_table ''JFK'' ''LAX'' 3 None
                  ''route_distance'' = None"
    by (simp add: sample_data_def map_add_def base_sample_def categorical_defaults_def
        demo_origin_table_def demo_dest_table_def jfk_origin_row_def lax_dest_row_def)
  have day: "sample_data demo_origin_table demo_dest_table ''JFK'' ''LAX'' 3 None
                  ''DayOfWeek'' = Some (Num 3)"
    by (simp add: sample_data_def map_add_def base_sample_def categorical_defaults_def
        demo_origin_table_def demo_dest_table_def jfk_origin_row_def lax_dest_row_def)
  have cols: "feature_columns (demo_predictor ''RandomForest'')
      = [''DayOfWeek'', ''arrival_hour'', ''CRSArrTime'', ''dest_ArrDel15_std'', ''route_distance'']"
    by (simp add: demo_predictor_def)
  show ?thesis
    using T absent day unfolding cols by simp
qed

section \<open>Airports absent from the statistics tables\<close>











lemma demo_predictor_fields:
  "model (demo_predictor name) = Some demo_classifier"
  "airport_stats (demo_predictor name) ''origin'' = Some demo_origin_table"
  "airport_stats (demo_predictor name) ''dest'' = Some demo_dest_table"
  "feature_columns (demo_predictor name)
     = [''DayOfWeek'', ''arrival_hour'', ''CRSArrTime'', ''dest_ArrDel15_std'', ''route_distance'']"
  "scaler (demo_predictor name) = demo_scaler"
  "model_metadata (demo_predictor name) = Some (demo_metadata name)"
  "predict_proba demo_classifier = Some demo_scores"
  by (simp_all add: demo_predictor_def demo_classifier_def)

lemma demo_scores_length: "length (demo_scores X) = 2"
  by (simp add: demo_scores_def split: list.splits cell.splits)

section \<open>The confidence label of \<open>POST /predict\<close>\<close>

lemma predict_delay_Success:
  assumes "predict_delay predictor_global data = Success r"
  shows "\<exists>P origin destination day_of_week probability.
           predictor_global = Some P \<and> req_origin data = Some origin
           \<and> req_destination data = Some destination
           \<and> req_dayOfWeek data = Some (JInt day_of_week)
           \<and> 1 \<le> day_of_week \<and> day_of_week \<le> 7
           \<and> predict_delay_probability P origin destination day_of_week (req_departureTime data)
               = Inr probability
           \<and> confidence r
               = fst (confidence_of (known_in P ''origin'' origin) (known_in P ''dest'' destination))"
  using assms unfolding predict_delay_def
  by (simp add: Let_def split: option.splits json_number.splits if_splits sum.splits) fastforce

lemma predict_Inr_tables:
  assumes "predict_delay_probability P origin destination day_of_week departure_time = Inr p"
  shows "\<exists>m origin_tab dest_tab. model P = Some m \<and> airport_stats P ''origin'' = Some origin_tab
           \<and> airport_stats P ''dest'' = Some dest_tab"
  using assms unfolding predict_delay_probability_def
  by (simp split: option.splits)

text \<open>
  C8. Whenever \<open>POST /predict\<close> answers with a prediction, both statistics tables exist and
  the confidence label is \<open>High\<close> when the origin is in the origin table and the destination
  in the destination table, \<open>Medium\<close> when exactly one of the two is, and \<open>Low\<close> when neither
  is.
\<close>

theorem confidence_label:
  assumes "predict_delay predictor_global data = Success r"
  shows "\<exists>P origin destination origin_tab dest_tab.
           predictor_global = Some P \<and> req_origin data = Some origin
           \<and> req_destination data = Some destination
           \<and> airport_stats P ''origin'' = Some origin_tab
           \<and> airport_stats P ''dest'' = Some dest_tab
           \<and> confidence r =
               (if origin_tab origin \<noteq> None \<and> dest_tab destination \<noteq> None then ''High''
                else if (origin_tab origin \<noteq> None) \<noteq> (dest_tab destination \<noteq> None)
                then ''Medium'' else ''Low'')"
proof -
  from predict_delay_Success [OF assms] obtain P origin destination day_of_week probability
    where P: "predictor_global = Some P" and o: "req_origin data = Some origin"
      and d: "req_destination data = Some destination"
      and p: "predict_delay_probability P origin destination day_of_week (req_departureTime data)
               = Inr probability"
      and c: "confidence r
               = fst (confidence_of (known_in P ''origin'' origin) (known_in P ''dest'' destination))"
    by blast
  from predict_Inr_tables [OF p] obtain origin_tab dest_tab
    where ot: "airport_stats P ''origin'' = Some origin_tab"
      and dt: "airport_stats P ''dest'' = Some dest_tab"
    by blast
  have ko: "known_in P ''origin'' origin = (origin_tab origin \<noteq> None)"
    by (simp add: known_in_def ot)
  have kd: "known_in P ''dest'' destination = (dest_tab destination \<noteq> None)"
    by (simp add: known_in_def dt)
  have "confidence r =
               (if origin_tab origin \<noteq> None \<and> dest_tab destination \<noteq> None then ''High''
                else if (origin_tab origin \<noteq> None) \<noteq> (dest_tab destination \<noteq> None)
                then ''Medium'' else ''Low'')"
    unfolding c ko kd confidence_of_def by (cases "origin_tab origin"; cases "dest_tab destination"; simp)
  with P o d ot dt show ?thesis by blast
qed

lemma demo_sample_values:
  "sample_data demo_origin_table demo_dest_table ''JFK'' ''SFO'' d None ''DayOfWeek''
     = Some (Num (of_int d))"
  "sample_data demo_origin_table demo_dest_table ''JFK'' ''SFO'' d None ''arrival_hour''
     = Some (Num 15)"
  "sample_data demo_origin_table demo_dest_table ''JFK'' ''SFO'' d None ''CRSArrTime''
     = Some (Num 1500)"
  "sample_data demo_origin_table demo_dest_table ''JFK'' ''SFO'' d None ''dest_ArrDel15_std''
     = Some (Num 0.41)"
  "sample_data demo_origin_table demo_dest_table ''JFK'' ''SFO'' d None ''route_distance''
     = None"
  by (simp_all add: sample_data_def map_add_def base_sample_def categorical_defaults_def
      avg_dest_stats_def demo_origin_table_def demo_dest_table_def jfk_origin_row_def)

lemma demo_row:
  "map snd (synthesize (demo_predictor name) demo_origin_table demo_dest_table ''JFK'' ''SFO'' d None)
     = [Num (of_int d), Num 15, Num 1500, Num 0.41, Num 0]"
  by (simp add: synthesize_def X_sample_def demo_predictor_fields(4) demo_sample_values fillna_def)

lemma demo_is_random_forest:
  "is_random_forest (demo_predictor ''RandomForest'')"
  "\<not> is_random_forest (demo_predictor ''GradientBoosting'')"
  by (simp_all add: is_random_forest_def demo_predictor_fields(6) demo_metadata_def)

lemma demo_prediction_rf:
  "0 < d \<Longrightarrow> predict_delay_probability (demo_predictor ''RandomForest'') ''JFK'' ''SFO'' d None
     = Inr 0.75"
  by (simp add: predict_delay_probability_def demo_predictor_fields demo_row
      demo_is_random_forest positive_class_def demo_scores_def Let_def)

lemma demo_prediction_gb:
  "predict_delay_probability (demo_predictor ''GradientBoosting'') ''JFK'' ''SFO'' 3 None
     = Inr 0.25"
  by (simp add: predict_delay_probability_def demo_predictor_fields demo_row
      demo_is_random_forest positive_class_def demo_scores_def demo_scaler_def Let_def)

theorem confidence_label_witness:
  "\<exists>r. predict_delay (Some (demo_predictor ''RandomForest'')) (demo_request ''JFK'' ''SFO'' 3)
          = Success r
       \<and> confidence r = ''Medium''"
proof -
  have "\<exists>r. predict_delay (Some (demo_predictor ''RandomForest'')) (demo_request ''JFK'' ''SFO'' 3)
          = Success r"
    by (simp add: predict_delay_def demo_request_def demo_prediction_rf Let_def)
  then obtain r where r: "predict_delay (Some (demo_predictor ''RandomForest''))
      (demo_request ''JFK'' ''SFO'' 3) = Success r" ..
  from confidence_label [OF r] obtain P origin destination origin_tab dest_tab
    where P: "Some (demo_predictor ''RandomForest'') = Some P"
      and o: "req_origin (demo_request ''JFK'' ''SFO'' 3) = Some origin"
      and d: "req_destination (demo_request ''JFK'' ''SFO'' 3) = Some destination"
      and ot: "airport_stats P ''origin'' = Some origin_tab"
      and dt: "airport_stats P ''dest'' = Some dest_tab"
      and c: "confidence r =
               (if origin_tab origin \<noteq> None \<and> dest_tab destination \<noteq> None then ''High''
                else if (origin_tab origin \<noteq> None) \<noteq> (dest_tab destination \<noteq> None)
                then ''Medium'' else ''Low'')"
    by (elim exE conjE)
  have P': "P = demo_predictor ''RandomForest''" using P by simp
  have o': "origin = ''JFK''" using o by (simp add: demo_request_def)
  have d': "destination = ''SFO''" using d by (simp add: demo_request_def)
  have ot': "origin_tab = demo_origin_table" using ot by (simp add: P' demo_predictor_fields)
  have dt': "dest_tab = demo_dest_table" using dt by (simp add: P' demo_predictor_fields)
  have "confidence r = ''Medium''"
    unfolding c o' d' ot' dt' by (simp add: demo_origin_table_def demo_dest_table_def)
  with r show ?thesis by (intro exI conjI)
qed

section \<open>A day of week outside 1..7\<close>

lemma py_round_75: "py_round 75 2 = 75"
  by (simp add: py_round_def round_half_even_def Let_def)

text \<open>
  C5 on the code. \<open>POST /predict\<close> rejects day 9 with status 400, but
  \<open>predict_delay_probability\<close> itself and \<open>POST /batch-predict\<close> accept it: the sample
  carries \<open>DayOfWeek = 9\<close> and a probability is returned.
\<close>

theorem out_of_range_day_is_scored:
  "predict_delay (Some (demo_predictor ''RandomForest'')) (demo_request ''JFK'' ''SFO'' 9)
     = Error400 ''dayOfWeek must be an integer between 1 (Monday) and 7 (Sunday)''
   \<and> predict_delay_probability (demo_predictor ''RandomForest'') ''JFK'' ''SFO'' 9 None = Inr 0.75
   \<and> map snd (synthesize (demo_predictor ''RandomForest'') demo_origin_table demo_dest_table
                ''JFK'' ''SFO'' 9 None)
       = [Num 9, Num 15, Num 1500, Num 0.41, Num 0]
   \<and> batch_predict (Some (demo_predictor ''RandomForest'')) [demo_route ''JFK'' ''SFO'' 9]
       = Inr [BatchSuccess 0 75]"
proof -
  have a: "predict_delay (Some (demo_predictor ''RandomForest'')) (demo_request ''JFK'' ''SFO'' 9)
     = Error400 ''dayOfWeek must be an integer between 1 (Monday) and 7 (Sunday)''"
    by (simp add: predict_delay_def demo_request_def)
  have b: "predict_delay_probability (demo_predictor ''RandomForest'') ''JFK'' ''SFO'' 9 None
     = Inr 0.75"
    by (rule demo_prediction_rf) simp
  have c: "map snd (synthesize (demo_predictor ''RandomForest'') demo_origin_table demo_dest_table
                ''JFK'' ''SFO'' 9 None)
       = [Num 9, Num 15, Num 1500, Num 0.41, Num 0]"
    using demo_row [of "''RandomForest''" 9] by simp
  have d: "batch_predict (Some (demo_predictor ''RandomForest'')) [demo_route ''JFK'' ''SFO'' 9]
       = Inr [BatchSuccess 0 75]"
    by (simp add: batch_predict_def batch_route_def demo_route_def b py_round_75)
  show ?thesis by (rule conjI [OF a conjI [OF b conjI [OF c d]]])
qed

text \<open>The validation of \<open>POST /predict\<close>, for every day outside 1..7.\<close>

lemma predict_delay_rejects_day:
  assumes "day_of_week < 1 \<or> 7 < day_of_week"
    and "req_dayOfWeek data = Some (JInt day_of_week)"
  shows "\<exists>msg. predict_delay predictor_global data \<in> {Error400 msg, Error500 msg}"
  using assms unfolding predict_delay_def
  by (auto split: option.splits)

section \<open>The departure period\<close>

text \<open>What the bins of the source give: each bucket is open below and closed above.\<close>

lemma departure_period_buckets:
  "departure_period f =
     (if 0 < departure_hour f \<and> departure_hour f \<le> 6 then Some ''night''
      else if 6 < departure_hour f \<and> departure_hour f \<le> 12 then Some ''morning''
      else if 12 < departure_hour f \<and> departure_hour f \<le> 18 then Some ''afternoon''
      else if 18 < departure_hour f \<and> departure_hour f \<le> 24 then Some ''evening''
      else None)"
  by (simp add: departure_period_def)

text \<open>
  C3 on the code. A departure at 06:30 has \<open>departure_hour = 6\<close> and is put in \<open>night\<close>,
  not \<open>morning\<close>; 12:00 is put in \<open>morning\<close> and 18:45 in \<open>afternoon\<close>; a departure at 00:30
  has \<open>departure_hour = 0\<close> and gets no bucket at all from \<open>pd.cut\<close>.
\<close>

theorem departure_period_boundaries:
  "departure_hour (demo_flight ''JFK'' ''LAX'' 630 0) = 6
   \<and> departure_period (demo_flight ''JFK'' ''LAX'' 630 0) = Some ''night''
   \<and> departure_hour (demo_flight ''JFK'' ''LAX'' 30 0) = 0
   \<and> departure_period (demo_flight ''JFK'' ''LAX'' 30 0) = None
   \<and> departure_period (demo_flight ''JFK'' ''LAX'' 1200 0) = Some ''morning''
   \<and> departure_period (demo_flight ''JFK'' ''LAX'' 1845 0) = Some ''afternoon''
   \<and> departure_period (demo_flight ''JFK'' ''LAX'' 700 0) = Some ''morning''"
  by (simp add: departure_period_buckets departure_hour_def demo_flight_def)

section \<open>The value returned and the row it is computed from\<close>

lemma is_random_forest_model_type:
  "is_random_forest self
     = (map_option model_type (model_metadata self) = Some ''RandomForest'')"
  by (cases "model_metadata self") (simp_all add: is_random_forest_def)

lemma prediction_scores_row:
  assumes "model self = Some m"
    and "airport_stats self ''origin'' = Some origin_tab"
    and "airport_stats self ''dest'' = Some dest_tab"
  shows "predict_delay_probability self origin_airport dest_airport day_of_week departure_time
     = (let X = map snd (synthesize self origin_tab dest_tab origin_airport dest_airport
                           day_of_week departure_time);
            Z = (if map_option model_type (model_metadata self) = Some ''RandomForest''
                 then X else scaler self X)
        in case predict_proba m of
             Some proba \<Rightarrow> positive_class (proba Z)
           | None \<Rightarrow> Inr (predict m Z))"
proof -
  have "predict_delay_probability self origin_airport dest_airport day_of_week departure_time
     = (let X = map snd (synthesize self origin_tab dest_tab origin_airport dest_airport
                           day_of_week departure_time);
            Z = (if is_random_forest self then X else scaler self X)
        in case predict_proba m of
             Some proba \<Rightarrow> positive_class (proba Z)
           | None \<Rightarrow> Inr (predict m Z))"
    by (simp add: predict_delay_probability_def assms Let_def split: option.splits)
  then show ?thesis
    by (simp only: is_random_forest_model_type)
qed

lemma synthesize_nth:
  assumes "i < length (feature_columns self)"
  shows "map snd (synthesize self origin_tab dest_tab origin_airport dest_airport day_of_week
                    departure_time) ! i
     = fillna 0 (case sample_data origin_tab dest_tab origin_airport dest_airport day_of_week
                        departure_time (feature_columns self ! i) of
                   None \<Rightarrow> Num 0 | Some v \<Rightarrow> v)"
  using assms by (simp add: synthesize_def X_sample_def)


section \<open>The scored row of a query with an unknown airport\<close>








section \<open>Which row the model scores\<close>

lemma demo_scores_bounds: "\<forall>Y. \<forall>s \<in> set (demo_scores Y). 0 \<le> s \<and> s \<le> 1"
  by (simp add: demo_scores_def split: list.splits cell.splits)

lemma fitted_binary_classifierD:
  assumes "fitted_binary_classifier m"
  shows "\<exists>proba. predict_proba m = Some proba
           \<and> (\<forall>X. length (proba X) = 2 \<and> 0 \<le> proba X ! 1 \<and> proba X ! 1 \<le> 1)"
proof (cases "predict_proba m")
  case None
  with assms show ?thesis by (simp add: fitted_binary_classifier_def)
next
  case (Some proba)
  with assms have c: "\<And>X. length (proba X) = 2 \<and> (\<forall>s \<in> set (proba X). 0 \<le> s \<and> s \<le> 1)"
    by (simp add: fitted_binary_classifier_def)
  have "length (proba X) = 2 \<and> 0 \<le> proba X ! 1 \<and> proba X ! 1 \<le> 1" for X
  proof -
    from c [of X] have l: "length (proba X) = 2"
      and b: "\<forall>s \<in> set (proba X). 0 \<le> s \<and> s \<le> 1" by simp_all
    from l have "proba X ! 1 \<in> set (proba X)" by simp
    with b l show ?thesis by blast
  qed
  with Some show ?thesis by simp
qed

text \<open>
  C4, as the code has it. For every loaded model, with or without \<open>predict_proba\<close>, the
  row the model is given is the unscaled synthesized row when the recorded model type is
  \<open>RandomForest\<close> and the scaled row for every other model type, the tree-based
  \<open>GradientBoosting\<close> included. For a fitted binary classifier the value returned is its
  positive-class score of that row, and it lies in [0,1].
\<close>

theorem scaling_gate:
  assumes "model self = Some m"
    and "airport_stats self ''origin'' = Some origin_tab"
    and "airport_stats self ''dest'' = Some dest_tab"
  shows
    "predict_delay_probability self origin_airport dest_airport day_of_week departure_time
       = (let X = map snd (synthesize self origin_tab dest_tab origin_airport dest_airport
                             day_of_week departure_time);
              Z = (if map_option model_type (model_metadata self) = Some ''RandomForest''
                   then X else scaler self X)
          in case predict_proba m of
               Some proba \<Rightarrow> positive_class (proba Z)
             | None \<Rightarrow> Inr (predict m Z))
     \<and> (fitted_binary_classifier m \<longrightarrow>
         (\<exists>proba p.
            predict_proba m = Some proba
            \<and> p = proba (if map_option model_type (model_metadata self) = Some ''RandomForest''
                         then map snd (synthesize self origin_tab dest_tab origin_airport
                                         dest_airport day_of_week departure_time)
                         else scaler self
                                (map snd (synthesize self origin_tab dest_tab origin_airport
                                            dest_airport day_of_week departure_time))) ! 1
            \<and> predict_delay_probability self origin_airport dest_airport day_of_week
                 departure_time = Inr p
            \<and> 0 \<le> p \<and> p \<le> 1))"
proof -
  let ?X = "map snd (synthesize self origin_tab dest_tab origin_airport dest_airport
                       day_of_week departure_time)"
  let ?Z = "if map_option model_type (model_metadata self) = Some ''RandomForest''
            then ?X else scaler self ?X"
  note eq = prediction_scores_row [OF assms]
  have fitted: "fitted_binary_classifier m \<longrightarrow>
         (\<exists>proba p. predict_proba m = Some proba \<and> p = proba ?Z ! 1
            \<and> predict_delay_probability self origin_airport dest_airport day_of_week
                 departure_time = Inr p
            \<and> 0 \<le> p \<and> p \<le> 1)"
  proof
    assume "fitted_binary_classifier m"
    then obtain proba where pp: "predict_proba m = Some proba"
      and c: "\<And>Y. length (proba Y) = 2 \<and> 0 \<le> proba Y ! 1 \<and> proba Y ! 1 \<le> 1"
      using fitted_binary_classifierD by blast
    have "predict_delay_probability self origin_airport dest_airport day_of_week departure_time
        = positive_class (proba ?Z)"
      using eq by (simp only: Let_def pp option.case)
    also have "\<dots> = Inr (proba ?Z ! 1)"
      using c [of ?Z] by (simp only: positive_class_def) simp
    finally have r: "predict_delay_probability self origin_airport dest_airport day_of_week
        departure_time = Inr (proba ?Z ! 1)" .
    from c [of ?Z] have b: "0 \<le> proba ?Z ! 1 \<and> proba ?Z ! 1 \<le> 1" by simp
    show "\<exists>proba p. predict_proba m = Some proba \<and> p = proba ?Z ! 1
            \<and> predict_delay_probability self origin_airport dest_airport day_of_week
                 departure_time = Inr p
            \<and> 0 \<le> p \<and> p \<le> 1"
      using pp r b by blast
  qed
  show ?thesis by (rule conjI [OF eq fitted])
qed

lemma demo_classifier_fitted: "fitted_binary_classifier demo_classifier"
  using demo_scores_bounds
  by (simp add: fitted_binary_classifier_def demo_predictor_fields(7) demo_scores_length)

theorem scaling_gate_witness:
  "model (demo_predictor ''RandomForest'') = Some demo_classifier
   \<and> airport_stats (demo_predictor ''RandomForest'') ''origin'' = Some demo_origin_table
   \<and> airport_stats (demo_predictor ''RandomForest'') ''dest'' = Some demo_dest_table
   \<and> fitted_binary_classifier demo_classifier
   \<and> predict_delay_probability (demo_predictor ''RandomForest'') ''JFK'' ''SFO'' 3 None
       = positive_class (demo_scores [Num 3, Num 15, Num 1500, Num 0.41, Num 0])
   \<and> predict_delay_probability (demo_predictor ''RandomForest'') ''JFK'' ''SFO'' 3 None = Inr 0.75
   \<and> predict_delay_probability (demo_predictor ''GradientBoosting'') ''JFK'' ''SFO'' 3 None
       = positive_class (demo_scores (demo_scaler [Num 3, Num 15, Num 1500, Num 0.41, Num 0]))
   \<and> predict_delay_probability (demo_predictor ''GradientBoosting'') ''JFK'' ''SFO'' 3 None
       = Inr 0.25
   \<and> (\<exists>p. predict_delay_probability (demo_predictor ''RandomForest'') ''JFK'' ''SFO'' 3 None
              = Inr p \<and> 0 \<le> p \<and> p \<le> 1)"
proof -
  note T = scaling_gate
    [where self = "demo_predictor ''RandomForest''" and m = demo_classifier
       and origin_tab = demo_origin_table and dest_tab = demo_dest_table
       and origin_airport = "''JFK''" and dest_airport = "''SFO''"
       and day_of_week = 3 and departure_time = None,
     OF demo_predictor_fields(1) demo_predictor_fields(2) demo_predictor_fields(3)]
  note G = scaling_gate
    [where self = "demo_predictor ''GradientBoosting''" and m = demo_classifier
       and origin_tab = demo_origin_table and dest_tab = demo_dest_table
       and origin_airport = "''JFK''" and dest_airport = "''SFO''"
       and day_of_week = 3 and departure_time = None,
     OF demo_predictor_fields(1) demo_predictor_fields(2) demo_predictor_fields(3)]
  have mt: "map_option model_type (model_metadata (demo_predictor ''RandomForest''))
      = Some ''RandomForest''"
    by (simp add: demo_predictor_fields(6) demo_metadata_def)
  have mg: "map_option model_type (model_metadata (demo_predictor ''GradientBoosting''))
      \<noteq> Some ''RandomForest''"
    by (simp add: demo_predictor_fields(6) demo_metadata_def)
  have row: "map snd (synthesize (demo_predictor name) demo_origin_table
      demo_dest_table ''JFK'' ''SFO'' 3 None) = [Num 3, Num 15, Num 1500, Num 0.41, Num 0]"
    for name
    using demo_row [of name 3] by simp
  have e: "predict_delay_probability (demo_predictor ''RandomForest'') ''JFK'' ''SFO'' 3 None
       = positive_class (demo_scores [Num 3, Num 15, Num 1500, Num 0.41, Num 0])"
    using T [THEN conjunct1] by (simp only: Let_def mt row demo_predictor_fields(7) simp_thms if_True option.case)
  have g: "predict_delay_probability (demo_predictor ''GradientBoosting'') ''JFK'' ''SFO'' 3 None
       = positive_class (demo_scores (demo_scaler [Num 3, Num 15, Num 1500, Num 0.41, Num 0]))"
    using G [THEN conjunct1]
    by (simp only: Let_def mg row demo_predictor_fields(5,7) simp_thms if_False option.case)
  have b: "\<exists>p. predict_delay_probability (demo_predictor ''RandomForest'') ''JFK'' ''SFO'' 3 None
              = Inr p \<and> 0 \<le> p \<and> p \<le> 1"
    using mp [OF T [THEN conjunct2] demo_classifier_fitted] by blast
  have e2: "predict_delay_probability (demo_predictor ''RandomForest'') ''JFK'' ''SFO'' 3 None
       = Inr 0.75"
    unfolding e by (simp add: positive_class_def demo_scores_def)
  have g2: "predict_delay_probability (demo_predictor ''GradientBoosting'') ''JFK'' ''SFO'' 3 None
       = Inr 0.25"
    unfolding g by (simp add: positive_class_def demo_scores_def demo_scaler_def)
  show ?thesis
    by (rule conjI [OF demo_predictor_fields(1) conjI [OF demo_predictor_fields(2)
          conjI [OF demo_predictor_fields(3) conjI [OF demo_classifier_fitted
          conjI [OF e conjI [OF e2 conjI [OF g conjI [OF g2 b]]]]]]]])
qed

text \<open>
  C4 as stated fails: \<open>GradientBoosting\<close> is tree-based, and as the deployed model it scores
  the scaled row (0.25 here), not the unscaled one (0.75).
\<close>

theorem scaling_not_by_tree_based_counterexample:
  "tree_based ''GradientBoosting''
   \<and> map_option model_type (model_metadata (demo_predictor ''GradientBoosting''))
       = Some ''GradientBoosting''
   \<and> map snd (synthesize (demo_predictor ''GradientBoosting'') demo_origin_table demo_dest_table
                ''JFK'' ''SFO'' 3 None)
       = [Num 3, Num 15, Num 1500, Num 0.41, Num 0]
   \<and> positive_class (demo_scores [Num 3, Num 15, Num 1500, Num 0.41, Num 0]) = Inr 0.75
   \<and> positive_class (demo_scores (demo_scaler [Num 3, Num 15, Num 1500, Num 0.41, Num 0]))
       = Inr 0.25
   \<and> predict_delay_probability (demo_predictor ''GradientBoosting'') ''JFK'' ''SFO'' 3 None
       = Inr 0.25"
proof -
  have row: "map snd (synthesize (demo_predictor ''GradientBoosting'') demo_origin_table
      demo_dest_table ''JFK'' ''SFO'' 3 None) = [Num 3, Num 15, Num 1500, Num 0.41, Num 0]"
    using demo_row [of "''GradientBoosting''" 3] by simp
  show ?thesis
    by (simp add: tree_based_def demo_predictor_fields(6) demo_metadata_def row
        positive_class_def demo_scores_def demo_scaler_def demo_prediction_gb)
qed

section \<open>Airports with a single historical flight\<close>


















end
